theory Spec2Isabelle
  imports Complex_Main "HOL-Library.Word"
begin

unbundle bit_operations_syntax

text \<open>
  A model of \<^verbatim>\<open>src/index.js\<close>, the HTTP API of the DKA calculator: the hasher
  \<^verbatim>\<open>rehashPatientHash\<close> and the handlers of \<^verbatim>\<open>POST /calculate\<close> and
  \<^verbatim>\<open>POST /update\<close>. The modules the file imports (\<^verbatim>\<open>calculateVariables\<close>,
  \<^verbatim>\<open>generateAuditID\<close>, \<^verbatim>\<open>insertData\<close>, \<^verbatim>\<open>getImdDecile\<close>, \<^verbatim>\<open>updateCheck\<close>,
  \<^verbatim>\<open>private/keys.json\<close>) are parameters of the handlers.
\<close>

section \<open>JavaScript strings and their UTF-8 encoding\<close>

text \<open>
  A JavaScript string is a sequence of 16-bit code units. \<open>js\<close> writes an ASCII literal
  as such a sequence.
\<close>

type_synonym u8 = "8 word"
type_synonym u16 = "16 word"
type_synonym u32 = "32 word"

type_synonym jsstring = "u16 list"

definition js :: "string \<Rightarrow> jsstring" where
  "js s = map of_char s"

text \<open>
  \<^verbatim>\<open>hash.update(string)\<close> hashes the UTF-8 encoding of the string. A surrogate pair is one
  code point of four bytes; a surrogate that is not part of a pair is encoded as the
  replacement character U+FFFD, the bytes EF BF BD.
\<close>

definition utf8_2 :: "u16 \<Rightarrow> u8 list" where
  "utf8_2 c = [0xC0 OR ucast (drop_bit 6 c), 0x80 OR ucast (c AND 0x3F)]"

definition utf8_3 :: "u16 \<Rightarrow> u8 list" where
  "utf8_3 c = [0xE0 OR ucast (drop_bit 12 c),
               0x80 OR ucast (drop_bit 6 c AND 0x3F),
               0x80 OR ucast (c AND 0x3F)]"

definition utf8_4 :: "u16 \<Rightarrow> u16 \<Rightarrow> u8 list" where
  "utf8_4 hi lo =
     (let cp = (0x10000 + push_bit 10 (ucast (hi - 0xD800)) + ucast (lo - 0xDC00) :: u32)
      in [0xF0 OR ucast (drop_bit 18 cp),
          0x80 OR ucast (drop_bit 12 cp AND 0x3F),
          0x80 OR ucast (drop_bit 6 cp AND 0x3F),
          0x80 OR ucast (cp AND 0x3F)])"

definition replacement :: "u8 list" where
  "replacement = [0xEF, 0xBF, 0xBD]"

fun utf8 :: "jsstring \<Rightarrow> u8 list" where
  "utf8 [] = []"
| "utf8 [c] =
     (if c < 0x80 then [ucast c]
      else if c < 0x800 then utf8_2 c
      else if 0xD800 \<le> c \<and> c < 0xE000 then replacement
      else utf8_3 c)"
| "utf8 (c # d # cs) =
     (if c < 0x80 then ucast c # utf8 (d # cs)
      else if c < 0x800 then utf8_2 c @ utf8 (d # cs)
      else if 0xD800 \<le> c \<and> c < 0xDC00 \<and> 0xDC00 \<le> d \<and> d < 0xE000 then utf8_4 c d @ utf8 cs
      else if 0xD800 \<le> c \<and> c < 0xE000 then replacement @ utf8 (d # cs)
      else utf8_3 c @ utf8 (d # cs))"

section \<open>SHA-256\<close>

text \<open>
  \<^verbatim>\<open>crypto.createHash("sha256")\<close> is the SHA-256 of FIPS 180-4, on 32-bit words: the
  message is padded to a multiple of 64 bytes, cut into blocks of sixteen big-endian
  words, and each block is compressed into the eight-word state in 64 rounds.
\<close>

definition Ch :: "u32 \<Rightarrow> u32 \<Rightarrow> u32 \<Rightarrow> u32" where
  "Ch x y z = (x AND y) XOR (NOT x AND z)"

definition Maj :: "u32 \<Rightarrow> u32 \<Rightarrow> u32 \<Rightarrow> u32" where
  "Maj x y z = (x AND y) XOR (x AND z) XOR (y AND z)"

definition bsig0 :: "u32 \<Rightarrow> u32" where
  "bsig0 x = word_rotr 2 x XOR word_rotr 13 x XOR word_rotr 22 x"

definition bsig1 :: "u32 \<Rightarrow> u32" where
  "bsig1 x = word_rotr 6 x XOR word_rotr 11 x XOR word_rotr 25 x"

definition ssig0 :: "u32 \<Rightarrow> u32" where
  "ssig0 x = word_rotr 7 x XOR word_rotr 18 x XOR drop_bit 3 x"

definition ssig1 :: "u32 \<Rightarrow> u32" where
  "ssig1 x = word_rotr 17 x XOR word_rotr 19 x XOR drop_bit 10 x"

definition K256 :: "u32 list" where
  "K256 =
   [0x428A2F98, 0x71374491, 0xB5C0FBCF, 0xE9B5DBA5, 0x3956C25B, 0x59F111F1, 0x923F82A4, 0xAB1C5ED5,
    0xD807AA98, 0x12835B01, 0x243185BE, 0x550C7DC3, 0x72BE5D74, 0x80DEB1FE, 0x9BDC06A7, 0xC19BF174,
    0xE49B69C1, 0xEFBE4786, 0x0FC19DC6, 0x240CA1CC, 0x2DE92C6F, 0x4A7484AA, 0x5CB0A9DC, 0x76F988DA,
    0x983E5152, 0xA831C66D, 0xB00327C8, 0xBF597FC7, 0xC6E00BF3, 0xD5A79147, 0x06CA6351, 0x14292967,
    0x27B70A85, 0x2E1B2138, 0x4D2C6DFC, 0x53380D13, 0x650A7354, 0x766A0ABB, 0x81C2C92E, 0x92722C85,
    0xA2BFE8A1, 0xA81A664B, 0xC24B8B70, 0xC76C51A3, 0xD192E819, 0xD6990624, 0xF40E3585, 0x106AA070,
    0x19A4C116, 0x1E376C08, 0x2748774C, 0x34B0BCB5, 0x391C0CB3, 0x4ED8AA4A, 0x5B9CCA4F, 0x682E6FF3,
    0x748F82EE, 0x78A5636F, 0x84C87814, 0x8CC70208, 0x90BEFFFA, 0xA4506CEB, 0xBEF9A3F7, 0xC67178F2]"

definition H256 :: "u32 list" where
  "H256 = [0x6A09E667, 0xBB67AE85, 0x3C6EF372, 0xA54FF53A,
           0x510E527F, 0x9B05688C, 0x1F83D9AB, 0x5BE0CD19]"

definition be32 :: "u8 \<Rightarrow> u8 \<Rightarrow> u8 \<Rightarrow> u8 \<Rightarrow> u32" where
  "be32 a b c d = push_bit 24 (ucast a) OR push_bit 16 (ucast b) OR push_bit 8 (ucast c) OR ucast d"

definition bytes_of_u32 :: "u32 \<Rightarrow> u8 list" where
  "bytes_of_u32 w = [ucast (drop_bit 24 w), ucast (drop_bit 16 w), ucast (drop_bit 8 w), ucast w]"

fun words_of_bytes :: "u8 list \<Rightarrow> u32 list" where
  "words_of_bytes (a # b # c # d # rest) = be32 a b c d # words_of_bytes rest"
| "words_of_bytes _ = []"

definition sha256_pad :: "u8 list \<Rightarrow> u8 list" where
  "sha256_pad m =
     (let l = length m;
          k = (119 - l mod 64) mod 64;
          n = (word_of_nat (8 * l) :: 64 word)
      in m @ [0x80] @ replicate k 0 @ map (\<lambda>i. ucast (drop_bit (8 * (7 - i)) n)) [0..<8])"

fun sha256_blocks :: "u32 list \<Rightarrow> u32 list list" where
  "sha256_blocks ws = (if length ws < 16 then [] else take 16 ws # sha256_blocks (drop 16 ws))"

declare sha256_blocks.simps [simp del]

fun sha256_schedule :: "nat \<Rightarrow> u32 list \<Rightarrow> u32 list" where
  "sha256_schedule 0 ws = ws"
| "sha256_schedule (Suc n) ws =
     (let t = length ws
      in sha256_schedule n
           (ws @ [ssig1 (ws ! (t - 2)) + ws ! (t - 7) + ssig0 (ws ! (t - 15)) + ws ! (t - 16)]))"

fun sha256_round :: "u32 list \<Rightarrow> (u32 \<times> u32) \<Rightarrow> u32 list" where
  "sha256_round [a, b, c, d, e, f, g, h] (k, w) =
     (let t1 = h + bsig1 e + Ch e f g + k + w;
          t2 = bsig0 a + Maj a b c
      in [t1 + t2, a, b, c, d + t1, e, f, g])"
| "sha256_round s _ = s"

definition sha256_compress :: "u32 list \<Rightarrow> u32 list \<Rightarrow> u32 list" where
  "sha256_compress hs blk =
     map2 (+) hs (foldl sha256_round hs (zip K256 (sha256_schedule 48 blk)))"

definition sha256 :: "u8 list \<Rightarrow> u8 list" where
  "sha256 m =
     concat (map bytes_of_u32
       (foldl sha256_compress H256 (sha256_blocks (words_of_bytes (sha256_pad m)))))"

text \<open>\<^verbatim>\<open>digest("hex")\<close>: two lower-case hexadecimal digits per byte.\<close>

definition hexdigit :: "nat \<Rightarrow> u16" where
  "hexdigit n = (if n < 10 then 0x30 + of_nat n else 0x57 + of_nat n)"

definition hex :: "u8 list \<Rightarrow> jsstring" where
  "hex bs = concat (map (\<lambda>b. [hexdigit (unat b div 16), hexdigit (unat b mod 16)]) bs)"

definition is_hex :: "u16 \<Rightarrow> bool" where
  "is_hex c = ((0x30 \<le> c \<and> c \<le> 0x39) \<or> (0x61 \<le> c \<and> c \<le> 0x66))"

text \<open>
  \<^verbatim>\<open>rehashPatientHash\<close> (lines 31 to 35). The first argument is \<^verbatim>\<open>keys.salt\<close>, the
  second the pre-hash, a string as the function's documentation declares it.
  \<^verbatim>\<open>
  const rehashPatientHash = (patientHash) =>
    crypto.createHash("sha256").update(patientHash + keys.salt).digest("hex");
  \<close>
\<close>

definition rehashPatientHash :: "jsstring \<Rightarrow> jsstring \<Rightarrow> jsstring" where
  "rehashPatientHash salt patientHash = hex (sha256 (utf8 (patientHash @ salt)))"

section \<open>JavaScript values\<close>

text \<open>
  The values a validated request field can hold, with JavaScript's truthiness: the falsy
  values are \<^verbatim>\<open>undefined\<close>, \<^verbatim>\<open>null\<close>, \<^verbatim>\<open>false\<close>, zero, \<^verbatim>\<open>NaN\<close> and the
  empty string. \<open>js_or a b\<close> is \<^verbatim>\<open>a || b\<close>. An absent field reads as \<^verbatim>\<open>undefined\<close>.
\<close>

datatype jsval =
    JUndefined
  | JNull
  | JBool bool
  | JNumber real
  | JNaN
  | JInfinity bool
  | JString jsstring

fun truthy :: "jsval \<Rightarrow> bool" where
  "truthy JUndefined = False"
| "truthy JNull = False"
| "truthy (JBool b) = b"
| "truthy (JNumber x) = (x \<noteq> 0)"
| "truthy JNaN = False"
| "truthy (JInfinity _) = True"
| "truthy (JString s) = (s \<noteq> [])"

definition js_or :: "jsval \<Rightarrow> jsval \<Rightarrow> jsval" where
  "js_or a b = (if truthy a then a else b)"

section \<open>Requests, responses and collaborators\<close>

text \<open>
  \<^verbatim>\<open>matchedData(req)\<close> of the two routes. The pre-hash and the postcode are strings or
  absent (\<open>None\<close>); the three optional numeric fields are JavaScript values;
  \<open>calc_episode\<close> and \<open>upd_fields\<close> hold the remaining validated fields.

  Every collaborator is called inside the handler's \<^verbatim>\<open>try\<close> and can throw: its result
  is \<open>Inl\<close> the error's message or \<open>Inr\<close> its value. The collaborators read and write a
  database of type \<open>'db\<close>; a collaborator that throws leaves it as it was.
  \<^verbatim>\<open>updateCheck\<close> answers \<open>None\<close> (a falsy value) when it finds no record, and otherwise
  the row with the stored patientHash, which is a string or null (\<open>None\<close>).

  An outcome is the response sent (status and JSON body), the database after the
  request, and the collaborator and hasher calls made, in order.
\<close>

type_synonym 'a result = "jsstring + 'a"

record calculate_data =
  calc_patientHash :: "jsstring option"
  calc_patientPostcode :: "jsstring option"
  calc_bicarbonate :: jsval
  calc_glucose :: jsval
  calc_ketones :: jsval
  calc_episode :: "(jsstring \<times> jsval) list"

record update_data =
  upd_auditID :: jsstring
  upd_patientHash :: jsstring
  upd_fields :: "(jsstring \<times> jsval) list"

record calculations =
  errors :: "jsval list"
  results :: "(jsstring \<times> jsval) list"

record check =
  chk_patientHash :: "jsstring option"

datatype call =
    CalculateVariables calculate_data
  | RehashPatientHash jsstring
  | GetImdDecile jsstring
  | GenerateAuditID
  | InsertCalculateData calculate_data jsval jsstring "jsstring option" jsval calculations
  | UpdateCheck jsstring
  | UpdateData update_data

datatype json =
    JsonText jsstring
  | JsonErrors "jsval list"
  | JsonCalculated jsstring calculations

record 'db collaborators =
  calculateVariables :: "calculate_data \<Rightarrow> calculations result"
  getImdDecile :: "jsstring \<Rightarrow> 'db \<Rightarrow> jsval result"
  generateAuditID :: "'db \<Rightarrow> jsstring result"
  insertCalculateData ::
    "calculate_data \<Rightarrow> jsval \<Rightarrow> jsstring \<Rightarrow> jsstring option \<Rightarrow> jsval \<Rightarrow> calculations \<Rightarrow> 'db \<Rightarrow> 'db result"
  updateCheck :: "jsstring \<Rightarrow> 'db \<Rightarrow> check option result"
  updateData :: "update_data \<Rightarrow> 'db \<Rightarrow> 'db result"
  salt :: jsstring

record 'db outcome =
  status :: nat
  body :: json
  database :: 'db
  calls :: "call list"

section \<open>POST /calculate\<close>

text \<open>
  The handler of lines 55 to 98.
  \<^verbatim>\<open>
  const calculations = calculateVariables(data);
  if (calculations.errors.length) {
    res.status(400).json({ errors: calculations.errors });
    return;
  }
  data.bicarbonate = data.bicarbonate || null;
  data.glucose = data.glucose || null;
  data.ketones = data.ketones || null;
  const patientHash = data.patientHash ? rehashPatientHash(data.patientHash) : null;
  const imdDecile = data.patientPostcode ? await getImdDecile(data.patientPostcode) : null;
  const auditID = await generateAuditID();
  await insertCalculateData(data, imdDecile, auditID, patientHash, clientIP, calculations);
  res.json({ auditID, calculations });
  \<close>
  Any exception is caught and answered with status 500 and the error's message.
\<close>

definition calculate_handler ::
  "'db collaborators \<Rightarrow> calculate_data \<Rightarrow> jsval \<Rightarrow> 'db \<Rightarrow> 'db outcome" where
  "calculate_handler env data0 clientIP db =
     (let t1 = [CalculateVariables data0]
      in case calculateVariables env data0 of
        Inl message \<Rightarrow>
          \<lparr>status = 500, body = JsonText message, database = db, calls = t1\<rparr>
      | Inr calculations \<Rightarrow>
         if errors calculations \<noteq> [] then
           \<lparr>status = 400, body = JsonErrors (errors calculations), database = db, calls = t1\<rparr>
         else
           let data = data0\<lparr>calc_bicarbonate := js_or (calc_bicarbonate data0) JNull,
                            calc_glucose := js_or (calc_glucose data0) JNull,
                            calc_ketones := js_or (calc_ketones data0) JNull\<rparr>;
               patientHash =
                 (case calc_patientHash data of
                    Some p \<Rightarrow> if p \<noteq> [] then Some (rehashPatientHash (salt env) p) else None
                  | None \<Rightarrow> None);
               t2 = t1 @
                 (case calc_patientHash data of
                    Some p \<Rightarrow> if p \<noteq> [] then [RehashPatientHash p] else []
                  | None \<Rightarrow> []);
               t3 = t2 @
                 (case calc_patientPostcode data of
                    Some pc \<Rightarrow> if pc \<noteq> [] then [GetImdDecile pc] else []
                  | None \<Rightarrow> [])
           in case (case calc_patientPostcode data of
                      Some pc \<Rightarrow> if pc \<noteq> [] then getImdDecile env pc db else Inr JNull
                    | None \<Rightarrow> Inr JNull) of
                Inl message \<Rightarrow>
                  \<lparr>status = 500, body = JsonText message, database = db, calls = t3\<rparr>
              | Inr imdDecile \<Rightarrow>
                  (case generateAuditID env db of
                     Inl message \<Rightarrow>
                       \<lparr>status = 500, body = JsonText message, database = db,
                        calls = t3 @ [GenerateAuditID]\<rparr>
                   | Inr auditID \<Rightarrow>
                       let t5 = t3 @ [GenerateAuditID,
                                      InsertCalculateData data imdDecile auditID patientHash
                                        clientIP calculations]
                       in (case insertCalculateData env data imdDecile auditID patientHash
                                  clientIP calculations db of
                             Inl message \<Rightarrow>
                               \<lparr>status = 500, body = JsonText message, database = db, calls = t5\<rparr>
                           | Inr db' \<Rightarrow>
                               \<lparr>status = 200, body = JsonCalculated auditID calculations,
                                database = db', calls = t5\<rparr>)))"

section \<open>POST /update\<close>

text \<open>
  The handler of lines 107 to 146.
  \<^verbatim>\<open>
  const check = await updateCheck(data.auditID);
  if (!check) {
    res.status(404).json(`Audit ID not found in database: ${data.auditID}`);
    return
  }
  const patientHash = rehashPatientHash(data.patientHash);
  if (check.patientHash != patientHash) {
    res.status(401).json(
      `Patient NHS number or date of birth do not match for episode with audit ID: ${data.auditID}`);
    return
  }
  await updateData(data);
  res.json("Audit data update complete");
  \<close>
  \<^verbatim>\<open>!=\<close> compares a stored value that is a string or null with a string: null differs
  from every string, and two strings are equal when their code units are.
\<close>

definition update_handler :: "'db collaborators \<Rightarrow> update_data \<Rightarrow> 'db \<Rightarrow> 'db outcome" where
  "update_handler env data db =
     (case updateCheck env (upd_auditID data) db of
        Inl message \<Rightarrow>
          \<lparr>status = 500, body = JsonText message, database = db,
           calls = [UpdateCheck (upd_auditID data)]\<rparr>
      | Inr None \<Rightarrow>
          \<lparr>status = 404,
           body = JsonText (js ''Audit ID not found in database: '' @ upd_auditID data),
           database = db, calls = [UpdateCheck (upd_auditID data)]\<rparr>
      | Inr (Some chk) \<Rightarrow>
          let patientHash = rehashPatientHash (salt env) (upd_patientHash data);
              t2 = [UpdateCheck (upd_auditID data), RehashPatientHash (upd_patientHash data)]
          in if chk_patientHash chk \<noteq> Some patientHash then
               \<lparr>status = 401,
                body = JsonText
                  (js ''Patient NHS number or date of birth do not match for episode with audit ID: ''
                   @ upd_auditID data),
                database = db, calls = t2\<rparr>
             else
               (case updateData env data db of
                  Inl message \<Rightarrow>
                    \<lparr>status = 500, body = JsonText message, database = db,
                     calls = t2 @ [UpdateData data]\<rparr>
                | Inr db' \<Rightarrow>
                    \<lparr>status = 200, body = JsonText (js ''Audit data update complete''),
                     database = db', calls = t2 @ [UpdateData data]\<rparr>))"

section \<open>Request sequences and the store contract\<close>

text \<open>The database after a sequence of update requests, handled one after the other.\<close>

fun run_updates :: "'db collaborators \<Rightarrow> update_data list \<Rightarrow> 'db \<Rightarrow> 'db" where
  "run_updates env [] db = db"
| "run_updates env (u # us) db = run_updates env us (database (update_handler env u db))"

text \<open>
  Modelled from the spec: the contract between \<^verbatim>\<open>insertCalculateData\<close> and
  \<^verbatim>\<open>updateCheck\<close>, whose code is in \<^verbatim>\<open>insertData.js\<close> and \<^verbatim>\<open>updateCheck.js\<close>. A
  committed insert is found by the lookup of its auditID, with the patientHash it was
  given ("lookup(auditID) -> record | absent", "patientHash: set at creation").
\<close>

definition lookup_after_insert :: "'db collaborators \<Rightarrow> bool" where
  "lookup_after_insert env =
     (\<forall>data imdDecile auditID patientHash clientIP calculations db db'.
        insertCalculateData env data imdDecile auditID patientHash clientIP calculations db = Inr db'
        \<longrightarrow> updateCheck env auditID db' = Inr (Some \<lparr>chk_patientHash = patientHash\<rparr>))"

text \<open>
  Modelled from the spec: the contract between \<^verbatim>\<open>updateData\<close> and \<^verbatim>\<open>updateCheck\<close>,
  whose code is in \<^verbatim>\<open>insertData.js\<close> and \<^verbatim>\<open>updateCheck.js\<close>. A committed update
  changes the answer of no lookup ("patientHash: compared (never overwritten) during
  update", "patientHash is write-once", "never deleted by this core").
\<close>

definition update_keeps_lookup :: "'db collaborators \<Rightarrow> bool" where
  "update_keeps_lookup env =
     (\<forall>data db db' auditID.
        updateData env data db = Inr db' \<longrightarrow> updateCheck env auditID db' = updateCheck env auditID db)"

section \<open>The audit record store\<close>

text \<open>
  Modelled from the spec: the audit record and the store operations, whose code is in
  \<^verbatim>\<open>insertData.js\<close> and \<^verbatim>\<open>updateCheck.js\<close>. The record has the fields of the spec's
  data model; the store holds one record per auditID.
\<close>

record AuditRecord =
  rec_auditID :: jsstring
  rec_patientHash :: "jsstring option"
  rec_calculationInputs :: calculate_data
  rec_calculationResults :: calculations
  rec_preventableFactors :: "(jsstring \<times> jsval) list option"
  rec_clientIP :: jsval
  rec_imdDecile :: jsval

type_synonym store = "jsstring \<rightharpoonup> AuditRecord"

text \<open>
  Modelled from the spec: \<^verbatim>\<open>updateCheck\<close>, "lookup(auditID) -> record | absent", of
  which the handler reads the patientHash.
\<close>

definition store_updateCheck :: "jsstring \<Rightarrow> store \<Rightarrow> check option result" where
  "store_updateCheck auditID st =
     Inr (case st auditID of
            None \<Rightarrow> None
          | Some r \<Rightarrow> Some \<lparr>chk_patientHash = rec_patientHash r\<rparr>)"

text \<open>
  Modelled from the spec: \<^verbatim>\<open>insertCalculateData\<close>, "persist the full record (submission,
  computed results, hash, identifier, contextual metadata, client network origin) as one
  atomic creation"; preventableFactors is "nullable at creation".
\<close>

definition store_insertCalculateData ::
  "calculate_data \<Rightarrow> jsval \<Rightarrow> jsstring \<Rightarrow> jsstring option \<Rightarrow> jsval \<Rightarrow> calculations \<Rightarrow> store
   \<Rightarrow> store result" where
  "store_insertCalculateData data imdDecile auditID patientHash clientIP calculations st =
     Inr (st(auditID \<mapsto>
       \<lparr>rec_auditID = auditID, rec_patientHash = patientHash,
        rec_calculationInputs = data, rec_calculationResults = calculations,
        rec_preventableFactors = None, rec_clientIP = clientIP, rec_imdDecile = imdDecile\<rparr>))"

text \<open>
  Modelled from the spec: \<^verbatim>\<open>updateData\<close>, "apply the amendment fields
  (outcome/preventable-factors data) to the stored record and persist. The identifier and
  patientHash themselves must never be rewritten by this path."
\<close>

definition store_updateData :: "update_data \<Rightarrow> store \<Rightarrow> store result" where
  "store_updateData data st =
     Inr (case st (upd_auditID data) of
            None \<Rightarrow> st
          | Some r \<Rightarrow> st(upd_auditID data \<mapsto> r\<lparr>rec_preventableFactors := Some (upd_fields data)\<rparr>))"

text \<open>
  The collaborators of the handlers on this store; the calculation, the decile lookup,
  the identifier generator and the salt stay parameters.
\<close>

definition store_collaborators ::
  "(calculate_data \<Rightarrow> calculations result) \<Rightarrow> (jsstring \<Rightarrow> store \<Rightarrow> jsval result) \<Rightarrow>
   (store \<Rightarrow> jsstring result) \<Rightarrow> jsstring \<Rightarrow> store collaborators" where
  "store_collaborators calc imd gen pepper =
     \<lparr>calculateVariables = calc, getImdDecile = imd, generateAuditID = gen,
      insertCalculateData = store_insertCalculateData,
      updateCheck = store_updateCheck, updateData = store_updateData, salt = pepper\<rparr>"

section \<open>Fixture collaborators and requests\<close>

text \<open>
  Stand-ins for \<^verbatim>\<open>calculateVariables\<close>, \<^verbatim>\<open>getImdDecile\<close>, \<^verbatim>\<open>generateAuditID\<close> and
  \<^verbatim>\<open>keys.salt\<close>, on the audit record store, and requests to run the handlers on: a
  calculation that rejects a submission without episode data, the decile 5, the
  identifier AUDIT-1 and the salt "pepper".
\<close>

definition fixture_calculations :: "calculate_data \<Rightarrow> calculations" where
  "fixture_calculations data =
     \<lparr>errors = (if calc_episode data = [] then [JString (js ''episode data missing'')] else []),
      results = calc_episode data\<rparr>"

definition fixture_calculateVariables :: "calculate_data \<Rightarrow> calculations result" where
  "fixture_calculateVariables data = Inr (fixture_calculations data)"

definition fixture_env :: "store collaborators" where
  "fixture_env =
     store_collaborators fixture_calculateVariables (\<lambda>pc st. Inr (JNumber 5))
       (\<lambda>st. Inr (js ''AUDIT-1'')) (js ''pepper'')"

definition fixture_submission :: calculate_data where
  "fixture_submission =
     \<lparr>calc_patientHash = Some (js ''abc123''), calc_patientPostcode = Some (js ''SW1A1AA''),
      calc_bicarbonate = JNumber 12, calc_glucose = JUndefined, calc_ketones = JNumber 3,
      calc_episode = [(js ''pH'', JNumber 7)]\<rparr>"

definition fixture_update :: "jsstring \<Rightarrow> update_data" where
  "fixture_update p =
     \<lparr>upd_auditID = js ''AUDIT-1'', upd_patientHash = p,
      upd_fields = [(js ''preventableFactors'', JString (js ''none''))]\<rparr>"

section \<open>Properties of the hasher\<close>

lemma length_sha256_round: "length (sha256_round s kw) = length s"
  by (induction s kw rule: sha256_round.induct) (simp_all add: Let_def)

lemma length_foldl_sha256_round: "length (foldl sha256_round hs xs) = length hs"
  by (induction xs arbitrary: hs) (simp_all add: length_sha256_round)

lemma length_sha256_compress: "length (sha256_compress hs blk) = length hs"
  by (simp add: sha256_compress_def length_foldl_sha256_round)

lemma length_foldl_sha256_compress: "length (foldl sha256_compress hs bs) = length hs"
  by (induction bs arbitrary: hs) (simp_all add: length_sha256_compress)

lemma length_concat_bytes_of_u32: "length (concat (map bytes_of_u32 ws)) = 4 * length ws"
  by (induction ws) (simp_all add: bytes_of_u32_def)

lemma length_sha256: "length (sha256 m) = 32"
  by (simp add: sha256_def length_concat_bytes_of_u32 length_foldl_sha256_compress H256_def)

lemma length_hex: "length (hex bs) = 2 * length bs"
  by (induction bs) (simp_all add: hex_def)

lemma nibble_cases:
  "n < 16 \<Longrightarrow> n \<in> {0, 1, 2, 3, 4, 5, 6, 7, 8, 9, 10, 11, 12, 13, 14, 15::nat}"
  by simp arith

lemma is_hex_hexdigit: "n < 16 \<Longrightarrow> is_hex (hexdigit n)"
  by (drule nibble_cases) (auto simp add: is_hex_def hexdigit_def)

lemma unat_hexdigit: "n < 16 \<Longrightarrow> unat (hexdigit n) = (if n < 10 then 48 + n else 87 + n)"
  by (drule nibble_cases) (auto simp add: hexdigit_def)

lemma hexdigit_inj: "m < 16 \<Longrightarrow> n < 16 \<Longrightarrow> hexdigit m = hexdigit n \<Longrightarrow> m = n"
proof -
  assume m: "m < 16" and n: "n < 16" and eq: "hexdigit m = hexdigit n"
  from eq have "unat (hexdigit m) = unat (hexdigit n)" by simp
  with m n show "m = n" by (simp add: unat_hexdigit split: if_splits)
qed

lemma byte_nibbles: "unat (b::u8) div 16 < 16" "unat b mod 16 < 16"
proof -
  have "unat b < 256" using unsigned_less [of b, where ?'a = nat] by simp
  then show "unat b div 16 < 16" by simp
  show "unat b mod 16 < 16" by simp
qed

lemma list_all_is_hex: "list_all is_hex (hex bs)"
  by (induction bs) (simp_all add: hex_def is_hex_hexdigit byte_nibbles)

lemma hex_byte_inj:
  assumes "hexdigit (unat (a::u8) div 16) = hexdigit (unat (b::u8) div 16)"
    and "hexdigit (unat a mod 16) = hexdigit (unat b mod 16)"
  shows "a = b"
proof -
  have d: "unat a div 16 = unat b div 16"
    using assms(1) by (rule hexdigit_inj [OF byte_nibbles(1) byte_nibbles(1)])
  have m: "unat a mod 16 = unat b mod 16"
    using assms(2) by (rule hexdigit_inj [OF byte_nibbles(2) byte_nibbles(2)])
  have "unat a = unat b"
    using d m by (metis div_mult_mod_eq)
  then show ?thesis by (simp add: word_unat_eq_iff)
qed

lemma hex_inj: "hex xs = hex ys \<Longrightarrow> xs = ys"
proof (induction xs arbitrary: ys)
  case Nil
  then show ?case by (cases ys) (simp_all add: hex_def)
next
  case (Cons x xs)
  then obtain y ys' where ys: "ys = y # ys'"
    by (cases ys) (simp_all add: hex_def)
  from Cons.prems ys have h: "hexdigit (unat x div 16) = hexdigit (unat y div 16)"
    "hexdigit (unat x mod 16) = hexdigit (unat y mod 16)" "hex xs = hex ys'"
    by (simp_all add: hex_def)
  from h(1,2) have "x = y" by (rule hex_byte_inj)
  moreover from h(3) have "xs = ys'" by (rule Cons.IH)
  ultimately show ?case using ys by simp
qed

lemma js_inj [simp]: "js a = js b \<longleftrightarrow> a = b"
proof -
  have "inj (of_char :: char \<Rightarrow> u16)"
  proof (rule injI)
    fix x y :: char
    assume "(of_char x :: u16) = of_char y"
    then have "unat (of_nat (of_char x) :: u16) = unat (of_nat (of_char y) :: u16)"
      by (simp only: of_nat_of_char)
    moreover have "(of_char x :: nat) < 65536" "(of_char y :: nat) < 65536"
      using nat_of_char_less_256 [of x] nat_of_char_less_256 [of y] by linarith+
    ultimately have "(of_char x :: nat) = of_char y"
      by (simp add: unat_of_nat)
    then show "x = y" by simp
  qed
  then show ?thesis by (auto simp add: js_def dest: inj_mapD)
qed

lemma js_Nil [simp]: "js s = [] \<longleftrightarrow> s = []"
  by (simp add: js_def)

text \<open>The one-block and the two-block example digests of FIPS 180-4.\<close>

lemma sha256_abc:
  "hex (sha256 (utf8 (js ''abc''))) =
   js ''ba7816bf8f01cfea414140de5dae2223b00361a396177a9cb410ff61f20015ad''"
  by code_simp

lemma sha256_two_blocks:
  "hex (sha256 (utf8 (js ''abcdbcdecdefdefgefghfghighijhijkijkljklmklmnlmnomnopnopq''))) =
   js ''248d6a61d20638b8e5c026930c3e6039a33ce45964ff2167f6ecedd419db06c1''"
  by code_simp

text \<open>The server hashes of two fixed pre-hashes under the salt "pepper".\<close>

lemma rehash_abc123:
  "rehashPatientHash (js ''pepper'') (js ''abc123'') =
   js ''1f28ccbfc0af11265f1d45ce55c7165147d568991d45eb0a59e897256651586e''"
  by code_simp

lemma rehash_wrong:
  "rehashPatientHash (js ''pepper'') (js ''wrong'') =
   js ''4a907b65b36173ca0d28ac3a4f474085eadc3ac2256f5712a667b75a34f831d7''"
  by code_simp

lemma rehash_fixed_strings_differ:
  "rehashPatientHash (js ''pepper'') (js ''wrong'') \<noteq>
   rehashPatientHash (js ''pepper'') (js ''abc123'')"
  by (simp add: rehash_abc123 rehash_wrong)

text \<open>
  Under every salt, a pre-hash that starts with a lone surrogate has the server hash of
  the pre-hash that starts with U+FFFD instead: both are hashed as the same bytes.
\<close>

lemma lone_surrogate_collision:
  "rehashPatientHash pepper [0xD800, 0x41] = rehashPatientHash pepper [0xFFFD, 0x41]"
  by (cases pepper) (simp_all add: rehashPatientHash_def replacement_def utf8_3_def)

text \<open>
  Under every salt, two of the pre-hashes "", "A", "AA", ... have the same server hash:
  there are infinitely many of them and finitely many strings of 64 code units.
\<close>

lemma rehashPatientHash_not_injective:
  "\<exists>m n. m \<noteq> n \<and>
     rehashPatientHash pepper (replicate m 0x41) = rehashPatientHash pepper (replicate n 0x41)"
proof -
  let ?f = "\<lambda>n::nat. rehashPatientHash pepper (replicate n 0x41)"
  have "range ?f \<subseteq> {xs. set xs \<subseteq> UNIV \<and> length xs = 64}"
    by (auto simp add: rehashPatientHash_def length_hex length_sha256)
  moreover have "finite {xs :: jsstring. set xs \<subseteq> UNIV \<and> length xs = 64}"
    by (rule finite_lists_length_eq) simp
  ultimately have "finite (range ?f)" by (rule finite_subset)
  then have "\<not> inj ?f" using finite_imageD by fastforce
  then show ?thesis by (auto simp add: inj_on_def)
qed

text \<open>
  C3. For every pre-hash string \<open>p\<close>, the server hash is the lower-case hexadecimal
  rendering of the SHA-256 digest of the UTF-8 bytes of \<open>p\<close> followed by the configured
  salt: a string of exactly 64 hexadecimal digits. It is a function of \<open>p\<close> and the salt
  alone, so equal inputs under an equal salt give equal output. With salt \<open>pepper\<close> the
  pre-hash \<open>abc123\<close> is stored as \<open>sha256("abc123pepper")\<close>.
\<close>

theorem rehashPatientHash_sha256_hex:
  "rehashPatientHash pepper p = hex (sha256 (utf8 (p @ pepper)))
   \<and> length (rehashPatientHash pepper p) = 64
   \<and> list_all is_hex (rehashPatientHash pepper p)
   \<and> rehashPatientHash (js ''pepper'') (js ''abc123'') =
       js ''1f28ccbfc0af11265f1d45ce55c7165147d568991d45eb0a59e897256651586e''"
  by (simp add: rehashPatientHash_def length_hex length_sha256 list_all_is_hex
      rehash_abc123 [unfolded rehashPatientHash_def])

text \<open>
  C9, as amended. Two pre-hashes get different server hashes exactly when the SHA-256
  digests of the UTF-8 bytes of pre-hash plus salt differ (the hexadecimal rendering loses
  nothing); for the fixed strings \<open>abc123\<close> and \<open>wrong\<close> under the salt \<open>pepper\<close> they do
  differ. Distinct pre-hashes are not guaranteed distinct server hashes.
\<close>

theorem rehashPatientHash_differs_iff_digest_differs:
  "(rehashPatientHash pepper p1 \<noteq> rehashPatientHash pepper p2 \<longleftrightarrow>
      sha256 (utf8 (p1 @ pepper)) \<noteq> sha256 (utf8 (p2 @ pepper)))
   \<and> rehashPatientHash (js ''pepper'') (js ''abc123'') \<noteq>
       rehashPatientHash (js ''pepper'') (js ''wrong'')"
  using rehash_fixed_strings_differ
  by (auto simp add: rehashPatientHash_def dest: hex_inj)

text \<open>
  C9 as stated fails: a lone surrogate is encoded as U+FFFD, so the distinct pre-hashes
  U+D800 followed by "A" and U+FFFD followed by "A" have the same server hash.
\<close>

theorem rehashPatientHash_distinct_inputs_collide:
  "[0xD800, 0x41] \<noteq> ([0xFFFD, 0x41] :: jsstring)
   \<and> rehashPatientHash (js ''pepper'') [0xD800, 0x41] =
     rehashPatientHash (js ''pepper'') [0xFFFD, 0x41]"
  by (simp add: lone_surrogate_collision)

section \<open>Properties of the handlers\<close>

lemmas store_defs =
  store_collaborators_def store_updateCheck_def store_updateData_def store_insertCalculateData_def

lemmas fixture_defs =
  fixture_env_def fixture_submission_def fixture_update_def fixture_calculateVariables_def
  fixture_calculations_def

lemma store_lookup_after_insert: "lookup_after_insert (store_collaborators calc imd gen pepper)"
  by (auto simp add: lookup_after_insert_def store_defs)

lemma store_update_keeps_lookup: "update_keeps_lookup (store_collaborators calc imd gen pepper)"
  by (auto simp add: update_keeps_lookup_def store_defs split: option.splits)

lemma update_handler_keeps_lookup:
  assumes "update_keeps_lookup env"
  shows "updateCheck env a (database (update_handler env u db)) = updateCheck env a db"
proof (cases "updateData env u db")
  case (Inl message)
  then show ?thesis
    by (simp add: update_handler_def Let_def split: sum.splits option.splits)
next
  case (Inr db')
  with assms have "updateCheck env a db' = updateCheck env a db"
    by (simp add: update_keeps_lookup_def)
  with Inr show ?thesis
    by (simp add: update_handler_def Let_def split: sum.splits option.splits)
qed

lemma run_updates_keeps_lookup:
  assumes "update_keeps_lookup env"
  shows "updateCheck env a (run_updates env us db) = updateCheck env a db"
  by (induction us arbitrary: db) (simp_all add: update_handler_keeps_lookup [OF assms])

lemma calculate_handler_created:
  assumes "status (calculate_handler env data clientIP db) = 200"
    and "body (calculate_handler env data clientIP db) = JsonCalculated a c"
  shows "\<exists>d i. insertCalculateData env d i a
             (case calc_patientHash data of
                Some p \<Rightarrow> if p \<noteq> [] then Some (rehashPatientHash (salt env) p) else None
              | None \<Rightarrow> None) clientIP c db = Inr (database (calculate_handler env data clientIP db))"
  using assms
  by (auto simp add: calculate_handler_def Let_def split: sum.splits if_splits)

lemma created_lookup:
  assumes "lookup_after_insert env"
    and "status (calculate_handler env data clientIP db) = 200"
    and "body (calculate_handler env data clientIP db) = JsonCalculated a c"
  shows "updateCheck env a (database (calculate_handler env data clientIP db)) =
         Inr (Some \<lparr>chk_patientHash =
           (case calc_patientHash data of
              Some p \<Rightarrow> if p \<noteq> [] then Some (rehashPatientHash (salt env) p) else None
            | None \<Rightarrow> None)\<rparr>)"
proof -
  from calculate_handler_created [OF assms(2,3)] obtain d i where
    "insertCalculateData env d i a
       (case calc_patientHash data of
          Some p \<Rightarrow> if p \<noteq> [] then Some (rehashPatientHash (salt env) p) else None
        | None \<Rightarrow> None) clientIP c db = Inr (database (calculate_handler env data clientIP db))"
    by blast
  with assms(1) show ?thesis
    unfolding lookup_after_insert_def by blast
qed

text \<open>
  The update handler changes the database through \<^verbatim>\<open>updateData(data)\<close> alone: without
  that call the database is what it was, and with it the database is what the call
  committed, or what it was when the call threw.
\<close>

lemma update_handler_writes_through_updateData:
  "(UpdateData data \<notin> set (calls (update_handler env data db)) \<longrightarrow>
      database (update_handler env data db) = db)
   \<and> (UpdateData data \<in> set (calls (update_handler env data db)) \<longrightarrow>
      database (update_handler env data db) =
        (case updateData env data db of Inl message \<Rightarrow> db | Inr db' \<Rightarrow> db'))"
  by (simp add: update_handler_def Let_def split: sum.splits option.splits)

lemma update_rejected:
  assumes "updateCheck env (upd_auditID u) db = Inr (Some chk)"
    and "chk_patientHash chk \<noteq> Some (rehashPatientHash (salt env) (upd_patientHash u))"
  shows "update_handler env u db =
           \<lparr>status = 401,
            body = JsonText
              (js ''Patient NHS number or date of birth do not match for episode with audit ID: ''
               @ upd_auditID u),
            database = db,
            calls = [UpdateCheck (upd_auditID u), RehashPatientHash (upd_patientHash u)]\<rparr>"
  using assms by (simp add: update_handler_def)

lemma update_accepted:
  assumes "updateCheck env (upd_auditID u) db = Inr (Some chk)"
    and "chk_patientHash chk = Some (rehashPatientHash (salt env) (upd_patientHash u))"
    and "updateData env u db = Inr db'"
  shows "update_handler env u db =
           \<lparr>status = 200, body = JsonText (js ''Audit data update complete''),
            database = db',
            calls = [UpdateCheck (upd_auditID u), RehashPatientHash (upd_patientHash u),
                     UpdateData u]\<rparr>"
  using assms by (simp add: update_handler_def)

lemma falsy_patientHash_unamendable:
  assumes "lookup_after_insert env" and "update_keeps_lookup env"
    and "calc_patientHash data = None \<or> calc_patientHash data = Some []"
    and "out = calculate_handler env data clientIP db"
    and "status out = 200"
    and "body out = JsonCalculated a c"
    and "upd_auditID u = a"
  shows "updateCheck env a (database out) = Inr (Some \<lparr>chk_patientHash = None\<rparr>)"
    and "update_handler env u (run_updates env us (database out)) =
           \<lparr>status = 401,
            body = JsonText
              (js ''Patient NHS number or date of birth do not match for episode with audit ID: ''
               @ a),
            database = run_updates env us (database out),
            calls = [UpdateCheck a, RehashPatientHash (upd_patientHash u)]\<rparr>"
proof -
  show 1: "updateCheck env a (database out) = Inr (Some \<lparr>chk_patientHash = None\<rparr>)"
    using created_lookup [OF assms(1), of data clientIP db a c] assms(3-6) by auto
  have "updateCheck env (upd_auditID u) (run_updates env us (database out)) =
        Inr (Some \<lparr>chk_patientHash = None\<rparr>)"
    using 1 assms(7) by (simp add: run_updates_keeps_lookup [OF assms(2)])
  from update_rejected [OF this] show "update_handler env u (run_updates env us (database out)) =
           \<lparr>status = 401,
            body = JsonText
              (js ''Patient NHS number or date of birth do not match for episode with audit ID: ''
               @ a),
            database = run_updates env us (database out),
            calls = [UpdateCheck a, RehashPatientHash (upd_patientHash u)]\<rparr>"
    using assms(7) by simp
qed

text \<open>
  C1. When the lookup of the request's auditID returns a record, \<open>updateData\<close> is
  invoked if and only if the hash re-derived from the submitted pre-hash equals the
  stored patientHash (a stored null never matches). On a mismatch the response is 401,
  its body is the fixed message followed by the auditID and nothing else, no hash
  appears in it, and the database is left as it was. On a match the database becomes
  what \<open>updateData\<close> commits and the response is 200 (500 when \<open>updateData\<close> throws).
\<close>

theorem update_identity_check:
  assumes "updateCheck env (upd_auditID data) db = Inr (Some chk)"
  shows "(UpdateData data \<in> set (calls (update_handler env data db)) \<longleftrightarrow>
            chk_patientHash chk = Some (rehashPatientHash (salt env) (upd_patientHash data)))
       \<and> (chk_patientHash chk \<noteq> Some (rehashPatientHash (salt env) (upd_patientHash data)) \<longrightarrow>
            update_handler env data db =
              \<lparr>status = 401,
               body = JsonText
                 (js ''Patient NHS number or date of birth do not match for episode with audit ID: ''
                  @ upd_auditID data),
               database = db,
               calls = [UpdateCheck (upd_auditID data), RehashPatientHash (upd_patientHash data)]\<rparr>)
       \<and> (chk_patientHash chk = Some (rehashPatientHash (salt env) (upd_patientHash data)) \<longrightarrow>
            update_handler env data db =
              (case updateData env data db of
                 Inl message \<Rightarrow>
                   \<lparr>status = 500, body = JsonText message, database = db,
                    calls = [UpdateCheck (upd_auditID data),
                             RehashPatientHash (upd_patientHash data), UpdateData data]\<rparr>
               | Inr db' \<Rightarrow>
                   \<lparr>status = 200, body = JsonText (js ''Audit data update complete''),
                    database = db',
                    calls = [UpdateCheck (upd_auditID data),
                             RehashPatientHash (upd_patientHash data), UpdateData data]\<rparr>))"
  using assms by (simp add: update_handler_def Let_def split: sum.splits)

theorem update_identity_check_witness:
  "calls (update_handler fixture_env (fixture_update (js ''abc123''))
      [js ''AUDIT-1'' \<mapsto>
        \<lparr>rec_auditID = js ''AUDIT-1'',
         rec_patientHash = Some (rehashPatientHash (js ''pepper'') (js ''abc123'')),
         rec_calculationInputs = fixture_submission,
         rec_calculationResults = fixture_calculations fixture_submission,
         rec_preventableFactors = None, rec_clientIP = JNull, rec_imdDecile = JNumber 5\<rparr>]) =
     [UpdateCheck (js ''AUDIT-1''), RehashPatientHash (js ''abc123''),
      UpdateData (fixture_update (js ''abc123''))]
   \<and> update_handler fixture_env (fixture_update (js ''wrong''))
      [js ''AUDIT-1'' \<mapsto>
        \<lparr>rec_auditID = js ''AUDIT-1'',
         rec_patientHash = Some (rehashPatientHash (js ''pepper'') (js ''abc123'')),
         rec_calculationInputs = fixture_submission,
         rec_calculationResults = fixture_calculations fixture_submission,
         rec_preventableFactors = None, rec_clientIP = JNull, rec_imdDecile = JNumber 5\<rparr>] =
     \<lparr>status = 401,
      body = JsonText
        (js ''Patient NHS number or date of birth do not match for episode with audit ID: ''
         @ js ''AUDIT-1''),
      database = [js ''AUDIT-1'' \<mapsto>
        \<lparr>rec_auditID = js ''AUDIT-1'',
         rec_patientHash = Some (rehashPatientHash (js ''pepper'') (js ''abc123'')),
         rec_calculationInputs = fixture_submission,
         rec_calculationResults = fixture_calculations fixture_submission,
         rec_preventableFactors = None, rec_clientIP = JNull, rec_imdDecile = JNumber 5\<rparr>],
      calls = [UpdateCheck (js ''AUDIT-1''), RehashPatientHash (js ''wrong'')]\<rparr>"
proof -
  let ?r = "\<lparr>rec_auditID = js ''AUDIT-1'',
         rec_patientHash = Some (rehashPatientHash (js ''pepper'') (js ''abc123'')),
         rec_calculationInputs = fixture_submission,
         rec_calculationResults = fixture_calculations fixture_submission,
         rec_preventableFactors = None, rec_clientIP = JNull, rec_imdDecile = JNumber 5\<rparr>"
  let ?chk = "\<lparr>chk_patientHash = Some (rehashPatientHash (js ''pepper'') (js ''abc123''))\<rparr>"
  have found: "updateCheck fixture_env (upd_auditID (fixture_update p)) [js ''AUDIT-1'' \<mapsto> ?r] =
      Inr (Some ?chk)" for p
    by (simp add: fixture_env_def fixture_update_def store_defs)
  show ?thesis
    using update_identity_check [OF found [of "js ''abc123''"]]
      update_identity_check [OF found [of "js ''wrong''"]] rehash_fixed_strings_differ
    by (simp add: fixture_env_def fixture_update_def store_defs)
qed

text \<open>
  C5. When the lookup of the request's auditID returns nothing, the response is 404 with
  the message "Audit ID not found in database: " followed by the auditID, the only
  collaborator call made is the lookup (no hash is derived, \<open>updateData\<close> is not invoked),
  the database is left as it was, and the outcome is the same whatever pre-hash was
  submitted and whatever the salt is.
\<close>

theorem update_unknown_auditID:
  assumes "updateCheck env (upd_auditID data) db = Inr None"
  shows "update_handler env data db =
           \<lparr>status = 404,
            body = JsonText (js ''Audit ID not found in database: '' @ upd_auditID data),
            database = db, calls = [UpdateCheck (upd_auditID data)]\<rparr>
         \<and> update_handler (env\<lparr>salt := s\<rparr>) (data\<lparr>upd_patientHash := p\<rparr>) db =
           update_handler env data db"
  using assms by (simp add: update_handler_def)

theorem update_unknown_auditID_witness:
  "updateCheck fixture_env (js ''unknown-id'') Map.empty = Inr None
   \<and> update_handler fixture_env
       ((fixture_update (js ''abc123''))\<lparr>upd_auditID := js ''unknown-id''\<rparr>) Map.empty =
     \<lparr>status = 404, body = JsonText (js ''Audit ID not found in database: '' @ js ''unknown-id''),
      database = Map.empty, calls = [UpdateCheck (js ''unknown-id'')]\<rparr>"
  using update_unknown_auditID [of fixture_env
      "(fixture_update (js ''abc123''))\<lparr>upd_auditID := js ''unknown-id''\<rparr>" Map.empty]
  by (simp add: fixture_env_def store_defs fixture_update_def)

text \<open>
  C4. When \<open>calculateVariables\<close> reports a non-empty errors list, the response is 400
  with exactly that list, the only collaborator call made is the calculation, and the
  database is left as it was, so every later lookup answers as it did before the
  request. In every run, \<open>insertCalculateData\<close> is invoked only when the calculation
  returned an empty errors list, only after the calculation, and with its result.
\<close>

theorem calculate_errors_no_persistence:
  "(calculateVariables env data = Inr calculated \<and> errors calculated \<noteq> [] \<longrightarrow>
      calculate_handler env data clientIP db =
        \<lparr>status = 400, body = JsonErrors (errors calculated),
         database = db, calls = [CalculateVariables data]\<rparr>
      \<and> (\<forall>a. updateCheck env a (database (calculate_handler env data clientIP db)) =
               updateCheck env a db))
   \<and> (InsertCalculateData d i a h ip c \<in> set (calls (calculate_handler env data clientIP db)) \<longrightarrow>
        calculateVariables env data = Inr c \<and> errors c = [] \<and>
        (\<exists>pre. calls (calculate_handler env data clientIP db) =
           CalculateVariables data # pre @ [InsertCalculateData d i a h ip c]))"
  by (auto simp add: calculate_handler_def Let_def split: sum.splits option.splits if_splits)

theorem calculate_errors_no_persistence_witness:
  "calculate_handler fixture_env (fixture_submission\<lparr>calc_episode := []\<rparr>)
     (JString (js ''10.0.0.1'')) Map.empty =
     \<lparr>status = 400, body = JsonErrors [JString (js ''episode data missing'')],
      database = Map.empty,
      calls = [CalculateVariables (fixture_submission\<lparr>calc_episode := []\<rparr>)]\<rparr>
   \<and> updateCheck fixture_env (js ''AUDIT-1'')
       (database (calculate_handler fixture_env (fixture_submission\<lparr>calc_episode := []\<rparr>)
          (JString (js ''10.0.0.1'')) Map.empty)) = Inr None"
  using calculate_errors_no_persistence [of fixture_env "fixture_submission\<lparr>calc_episode := []\<rparr>"
      "fixture_calculations (fixture_submission\<lparr>calc_episode := []\<rparr>)"
      "JString (js ''10.0.0.1'')" Map.empty]
  by (simp add: fixture_defs store_defs)

text \<open>
  C8, as amended. Whenever the handler invokes \<open>insertCalculateData\<close>, each of
  bicarbonate, glucose and ketones that was absent from the submission is handed over as
  null, which is not the number zero, and each that was submitted with a truthy value
  (any non-zero number) is handed over unchanged: a stored null is distinguishable from
  every stored non-zero value.
\<close>

theorem optional_fields_normalised:
  assumes "InsertCalculateData d i a h ip c \<in> set (calls (calculate_handler env data clientIP db))"
  shows "(calc_bicarbonate data = JUndefined \<longrightarrow> calc_bicarbonate d = JNull)
       \<and> (calc_glucose data = JUndefined \<longrightarrow> calc_glucose d = JNull)
       \<and> (calc_ketones data = JUndefined \<longrightarrow> calc_ketones d = JNull)
       \<and> JNull \<noteq> JNumber 0
       \<and> (truthy (calc_bicarbonate data) \<longrightarrow> calc_bicarbonate d = calc_bicarbonate data)
       \<and> (truthy (calc_glucose data) \<longrightarrow> calc_glucose d = calc_glucose data)
       \<and> (truthy (calc_ketones data) \<longrightarrow> calc_ketones d = calc_ketones data)"
  using assms
  by (auto simp add: calculate_handler_def Let_def js_or_def
      split: sum.splits option.splits if_splits)

theorem optional_fields_normalised_witness:
  "map_option (\<lambda>r. (calc_bicarbonate (rec_calculationInputs r),
                     calc_glucose (rec_calculationInputs r),
                     calc_ketones (rec_calculationInputs r)))
     (database (calculate_handler fixture_env fixture_submission (JString (js ''10.0.0.1''))
        Map.empty) (js ''AUDIT-1'')) =
   Some (JNumber 12, JNull, JNumber 3)"
proof -
  let ?d = "fixture_submission\<lparr>calc_glucose := JNull\<rparr>"
  let ?out = "calculate_handler fixture_env fixture_submission (JString (js ''10.0.0.1'')) Map.empty"
  have c: "calls ?out =
      [CalculateVariables fixture_submission, RehashPatientHash (js ''abc123''),
       GetImdDecile (js ''SW1A1AA''), GenerateAuditID,
       InsertCalculateData ?d (JNumber 5) (js ''AUDIT-1'')
         (Some (rehashPatientHash (js ''pepper'') (js ''abc123''))) (JString (js ''10.0.0.1''))
         (fixture_calculations fixture_submission)]"
    and db: "database ?out (js ''AUDIT-1'') =
      Some \<lparr>rec_auditID = js ''AUDIT-1'',
         rec_patientHash = Some (rehashPatientHash (js ''pepper'') (js ''abc123'')),
         rec_calculationInputs = ?d,
         rec_calculationResults = fixture_calculations fixture_submission,
         rec_preventableFactors = None, rec_clientIP = JString (js ''10.0.0.1''),
         rec_imdDecile = JNumber 5\<rparr>"
    by (simp_all add: calculate_handler_def fixture_defs store_defs Let_def js_or_def)
  have "InsertCalculateData ?d (JNumber 5) (js ''AUDIT-1'')
         (Some (rehashPatientHash (js ''pepper'') (js ''abc123''))) (JString (js ''10.0.0.1''))
         (fixture_calculations fixture_submission) \<in> set (calls ?out)"
    by (simp only: c) simp
  from optional_fields_normalised [OF this] show ?thesis
    by (simp add: db) (simp add: fixture_submission_def)
qed

text \<open>
  C8 as stated fails: a submitted ketones value of zero is stored exactly as an omitted
  one is, so the stored record does not tell them apart.
\<close>

theorem zero_stored_like_omitted:
  "fixture_submission\<lparr>calc_ketones := JNumber 0\<rparr> \<noteq> fixture_submission\<lparr>calc_ketones := JUndefined\<rparr>
   \<and> status (calculate_handler fixture_env (fixture_submission\<lparr>calc_ketones := JNumber 0\<rparr>)
        (JString (js ''10.0.0.1'')) Map.empty) = 200
   \<and> database (calculate_handler fixture_env (fixture_submission\<lparr>calc_ketones := JNumber 0\<rparr>)
        (JString (js ''10.0.0.1'')) Map.empty) =
     database (calculate_handler fixture_env (fixture_submission\<lparr>calc_ketones := JUndefined\<rparr>)
        (JString (js ''10.0.0.1'')) Map.empty)"
  by (simp add: calculate_handler_def fixture_defs store_defs Let_def js_or_def)

text \<open>
  C2. Let the store collaborators answer a lookup after an insert with the inserted hash
  and let \<open>updateData\<close> leave lookups as they are. When a submission without a patient
  pre-hash has been created under auditID \<open>a\<close>, the stored patientHash is null, and after
  any further sequence of update requests every update against \<open>a\<close>, whatever pre-hash
  it submits, is answered 401 without invoking \<open>updateData\<close> and without changing the
  database.
\<close>

theorem null_patientHash_never_amendable:
  assumes "lookup_after_insert env" and "update_keeps_lookup env"
    and "calc_patientHash data = None"
    and "out = calculate_handler env data clientIP db"
    and "status out = 200"
    and "body out = JsonCalculated a c"
    and "upd_auditID u = a"
  shows "updateCheck env a (database out) = Inr (Some \<lparr>chk_patientHash = None\<rparr>)
       \<and> update_handler env u (run_updates env us (database out)) =
           \<lparr>status = 401,
            body = JsonText
              (js ''Patient NHS number or date of birth do not match for episode with audit ID: ''
               @ a),
            database = run_updates env us (database out),
            calls = [UpdateCheck a, RehashPatientHash (upd_patientHash u)]\<rparr>"
  using falsy_patientHash_unamendable [OF assms(1,2) _ assms(4-7)] assms(3) by simp

theorem null_patientHash_never_amendable_witness:
  "status (calculate_handler fixture_env (fixture_submission\<lparr>calc_patientHash := None\<rparr>)
     (JString (js ''10.0.0.1'')) Map.empty) = 200
   \<and> database (calculate_handler fixture_env (fixture_submission\<lparr>calc_patientHash := None\<rparr>)
       (JString (js ''10.0.0.1'')) Map.empty) (js ''AUDIT-1'') =
     Some \<lparr>rec_auditID = js ''AUDIT-1'', rec_patientHash = None,
         rec_calculationInputs =
           fixture_submission\<lparr>calc_patientHash := None, calc_glucose := JNull\<rparr>,
         rec_calculationResults = fixture_calculations fixture_submission,
         rec_preventableFactors = None, rec_clientIP = JString (js ''10.0.0.1''),
         rec_imdDecile = JNumber 5\<rparr>
   \<and> status (update_handler fixture_env (fixture_update (js ''abc123''))
       (run_updates fixture_env [fixture_update (js ''wrong'')]
         (database (calculate_handler fixture_env (fixture_submission\<lparr>calc_patientHash := None\<rparr>)
           (JString (js ''10.0.0.1'')) Map.empty)))) = 401"
proof -
  let ?out = "calculate_handler fixture_env (fixture_submission\<lparr>calc_patientHash := None\<rparr>)
     (JString (js ''10.0.0.1'')) Map.empty"
  have s: "status ?out = 200"
    and b: "body ?out = JsonCalculated (js ''AUDIT-1'') (fixture_calculations fixture_submission)"
    and d: "database ?out (js ''AUDIT-1'') =
     Some \<lparr>rec_auditID = js ''AUDIT-1'', rec_patientHash = None,
         rec_calculationInputs =
           fixture_submission\<lparr>calc_patientHash := None, calc_glucose := JNull\<rparr>,
         rec_calculationResults = fixture_calculations fixture_submission,
         rec_preventableFactors = None, rec_clientIP = JString (js ''10.0.0.1''),
         rec_imdDecile = JNumber 5\<rparr>"
    by (simp_all add: calculate_handler_def fixture_defs store_defs Let_def js_or_def)
  have c1: "lookup_after_insert fixture_env" and c2: "update_keeps_lookup fixture_env"
    unfolding fixture_env_def by (rule store_lookup_after_insert, rule store_update_keeps_lookup)
  have u: "upd_auditID (fixture_update (js ''abc123'')) = js ''AUDIT-1''"
    by (simp add: fixture_update_def)
  have n: "calc_patientHash (fixture_submission\<lparr>calc_patientHash := None\<rparr>) = None"
    by simp
  show ?thesis
    using null_patientHash_never_amendable [OF c1 c2 n refl s b u,
        of "[fixture_update (js ''wrong'')]"] s d
    by simp
qed

text \<open>
  C10. Under the same store contract, a submission whose patientHash is the empty
  string is created as one without a pre-hash is: no hash is derived, the stored
  patientHash is null, and after any further sequence of update requests every update
  against its auditID, whatever pre-hash it submits (the empty string included), is
  answered 401 without changing the database.
\<close>

theorem empty_patientHash_never_amendable:
  assumes "lookup_after_insert env" and "update_keeps_lookup env"
    and "calc_patientHash data = Some []"
    and "out = calculate_handler env data clientIP db"
    and "status out = 200"
    and "body out = JsonCalculated a c"
    and "upd_auditID u = a"
  shows "updateCheck env a (database out) = Inr (Some \<lparr>chk_patientHash = None\<rparr>)
       \<and> RehashPatientHash [] \<notin> set (calls out)
       \<and> update_handler env u (run_updates env us (database out)) =
           \<lparr>status = 401,
            body = JsonText
              (js ''Patient NHS number or date of birth do not match for episode with audit ID: ''
               @ a),
            database = run_updates env us (database out),
            calls = [UpdateCheck a, RehashPatientHash (upd_patientHash u)]\<rparr>"
proof -
  have "RehashPatientHash [] \<notin> set (calls out)"
    using assms(3,4)
    by (simp add: calculate_handler_def Let_def split: sum.splits option.splits)
  then show ?thesis
    using falsy_patientHash_unamendable [OF assms(1,2) _ assms(4-7)] assms(3) by simp
qed

theorem empty_patientHash_never_amendable_witness:
  "status (calculate_handler fixture_env (fixture_submission\<lparr>calc_patientHash := Some []\<rparr>)
     (JString (js ''10.0.0.1'')) Map.empty) = 200
   \<and> map_option rec_patientHash
       (database (calculate_handler fixture_env (fixture_submission\<lparr>calc_patientHash := Some []\<rparr>)
          (JString (js ''10.0.0.1'')) Map.empty) (js ''AUDIT-1'')) = Some None
   \<and> status (update_handler fixture_env (fixture_update [])
       (run_updates fixture_env [fixture_update (js ''abc123'')]
         (database (calculate_handler fixture_env (fixture_submission\<lparr>calc_patientHash := Some []\<rparr>)
           (JString (js ''10.0.0.1'')) Map.empty)))) = 401"
proof -
  let ?out = "calculate_handler fixture_env (fixture_submission\<lparr>calc_patientHash := Some []\<rparr>)
     (JString (js ''10.0.0.1'')) Map.empty"
  have s: "status ?out = 200"
    and b: "body ?out = JsonCalculated (js ''AUDIT-1'') (fixture_calculations fixture_submission)"
    and d: "map_option rec_patientHash (database ?out (js ''AUDIT-1'')) = Some None"
    by (simp_all add: calculate_handler_def fixture_defs store_defs Let_def js_or_def)
  have c1: "lookup_after_insert fixture_env" and c2: "update_keeps_lookup fixture_env"
    unfolding fixture_env_def by (rule store_lookup_after_insert, rule store_update_keeps_lookup)
  have u: "upd_auditID (fixture_update []) = js ''AUDIT-1''"
    by (simp add: fixture_update_def)
  have n: "calc_patientHash (fixture_submission\<lparr>calc_patientHash := Some []\<rparr>) = Some []"
    by simp
  show ?thesis
    using empty_patientHash_never_amendable [OF c1 c2 n refl s b u,
        of "[fixture_update (js ''abc123'')]"] s d
    by simp
qed

text \<open>
  C6, as amended. Under the same store contract, let a submission with a non-empty
  pre-hash \<open>H\<close> have been created under auditID \<open>a\<close>, and let any sequence of update
  requests follow. Then an update against \<open>a\<close> that resubmits \<open>H\<close> passes the check:
  \<open>updateData\<close> is invoked with the request and, when it commits, the response is 200
  and the database is the one it committed. An update against \<open>a\<close> whose pre-hash has a
  server hash different from that of \<open>H\<close> is answered 401 and leaves the database as it
  was.
\<close>

theorem create_amend_round_trip:
  assumes "lookup_after_insert env" and "update_keeps_lookup env"
    and "calc_patientHash data = Some H"
    and "H \<noteq> []"
    and "out = calculate_handler env data clientIP db"
    and "status out = 200"
    and "body out = JsonCalculated a c"
    and "db1 = run_updates env us (database out)"
    and "upd_auditID u = a"
  shows "(upd_patientHash u = H \<longrightarrow>
            (\<forall>db'. updateData env u db1 = Inr db' \<longrightarrow>
               update_handler env u db1 =
                 \<lparr>status = 200, body = JsonText (js ''Audit data update complete''),
                  database = db',
                  calls = [UpdateCheck a, RehashPatientHash H, UpdateData u]\<rparr>))
       \<and> (rehashPatientHash (salt env) (upd_patientHash u) \<noteq> rehashPatientHash (salt env) H \<longrightarrow>
            update_handler env u db1 =
              \<lparr>status = 401,
               body = JsonText
                 (js ''Patient NHS number or date of birth do not match for episode with audit ID: ''
                  @ a),
               database = db1,
               calls = [UpdateCheck a, RehashPatientHash (upd_patientHash u)]\<rparr>)"
proof -
  let ?chk = "\<lparr>chk_patientHash = Some (rehashPatientHash (salt env) H)\<rparr>"
  have "updateCheck env a (database out) = Inr (Some ?chk)"
    using created_lookup [OF assms(1), of data clientIP db a c] assms(3-7) by simp
  then have found: "updateCheck env (upd_auditID u) db1 = Inr (Some ?chk)"
    using assms(8,9) by (simp add: run_updates_keeps_lookup [OF assms(2)])
  have ok: "upd_patientHash u = H \<longrightarrow>
            (\<forall>db'. updateData env u db1 = Inr db' \<longrightarrow>
               update_handler env u db1 =
                 \<lparr>status = 200, body = JsonText (js ''Audit data update complete''),
                  database = db',
                  calls = [UpdateCheck a, RehashPatientHash H, UpdateData u]\<rparr>)"
    using update_accepted [OF found] assms(9) by auto
  have no: "rehashPatientHash (salt env) (upd_patientHash u) \<noteq> rehashPatientHash (salt env) H \<longrightarrow>
            update_handler env u db1 =
              \<lparr>status = 401,
               body = JsonText
                 (js ''Patient NHS number or date of birth do not match for episode with audit ID: ''
                  @ a),
               database = db1,
               calls = [UpdateCheck a, RehashPatientHash (upd_patientHash u)]\<rparr>"
    using update_rejected [OF found] assms(9) by auto
  from ok no show ?thesis by blast
qed

theorem create_amend_round_trip_witness:
  "status (calculate_handler fixture_env fixture_submission (JString (js ''10.0.0.1'')) Map.empty) = 200
   \<and> status (update_handler fixture_env (fixture_update (js ''abc123''))
       (database (calculate_handler fixture_env fixture_submission (JString (js ''10.0.0.1''))
          Map.empty))) = 200
   \<and> map_option rec_preventableFactors
       (database (update_handler fixture_env (fixture_update (js ''abc123''))
          (database (calculate_handler fixture_env fixture_submission (JString (js ''10.0.0.1''))
             Map.empty))) (js ''AUDIT-1'')) =
     Some (Some [(js ''preventableFactors'', JString (js ''none''))])
   \<and> status (update_handler fixture_env (fixture_update (js ''wrong''))
       (database (calculate_handler fixture_env fixture_submission (JString (js ''10.0.0.1''))
          Map.empty))) = 401
   \<and> database (update_handler fixture_env (fixture_update (js ''wrong''))
       (database (calculate_handler fixture_env fixture_submission (JString (js ''10.0.0.1''))
          Map.empty))) =
     database (calculate_handler fixture_env fixture_submission (JString (js ''10.0.0.1''))
          Map.empty)"
proof -
  let ?out = "calculate_handler fixture_env fixture_submission (JString (js ''10.0.0.1'')) Map.empty"
  let ?r = "\<lparr>rec_auditID = js ''AUDIT-1'',
         rec_patientHash = Some (rehashPatientHash (js ''pepper'') (js ''abc123'')),
         rec_calculationInputs = fixture_submission\<lparr>calc_glucose := JNull\<rparr>,
         rec_calculationResults = fixture_calculations fixture_submission,
         rec_preventableFactors = None, rec_clientIP = JString (js ''10.0.0.1''),
         rec_imdDecile = JNumber 5\<rparr>"
  have s: "status ?out = 200"
    and b: "body ?out = JsonCalculated (js ''AUDIT-1'') (fixture_calculations fixture_submission)"
    and d: "database ?out = [js ''AUDIT-1'' \<mapsto> ?r]"
    by (simp_all add: calculate_handler_def fixture_defs store_defs Let_def js_or_def)
  have c1: "lookup_after_insert fixture_env" and c2: "update_keeps_lookup fixture_env"
    unfolding fixture_env_def by (rule store_lookup_after_insert, rule store_update_keeps_lookup)
  have h: "calc_patientHash fixture_submission = Some (js ''abc123'')" "js ''abc123'' \<noteq> []"
    by (simp_all add: fixture_submission_def)
  have r: "database ?out = run_updates fixture_env [] (database ?out)"
    by simp
  have u: "upd_auditID (fixture_update p) = js ''AUDIT-1''" for p
    by (simp add: fixture_update_def)
  have commit: "updateData fixture_env (fixture_update (js ''abc123'')) (database ?out) =
      Inr [js ''AUDIT-1'' \<mapsto>
            ?r\<lparr>rec_preventableFactors := Some [(js ''preventableFactors'', JString (js ''none''))]\<rparr>]"
    by (simp add: d) (simp add: fixture_env_def fixture_update_def store_defs)
  have differ: "rehashPatientHash (salt fixture_env) (upd_patientHash (fixture_update (js ''wrong''))) \<noteq>
      rehashPatientHash (salt fixture_env) (js ''abc123'')"
    using rehash_fixed_strings_differ
    by (simp add: fixture_env_def fixture_update_def store_collaborators_def)
  have p: "upd_patientHash (fixture_update (js ''abc123'')) = js ''abc123''"
    by (simp add: fixture_update_def)
  show ?thesis
    using create_amend_round_trip [OF c1 c2 h refl s b r u, of "js ''abc123''"]
      create_amend_round_trip [OF c1 c2 h refl s b r u, of "js ''wrong''"]
      s commit differ p
    by simp
qed

text \<open>
  C6 as stated fails twice. A record created with the empty string as pre-hash rejects
  the update that resubmits the empty string; and a record created with the pre-hash
  U+D800 followed by "A" accepts the update that submits the different pre-hash U+FFFD
  followed by "A", and is changed by it.
\<close>

theorem round_trip_as_stated_fails:
  "status (calculate_handler fixture_env (fixture_submission\<lparr>calc_patientHash := Some []\<rparr>)
      (JString (js ''10.0.0.1'')) Map.empty) = 200
   \<and> body (calculate_handler fixture_env (fixture_submission\<lparr>calc_patientHash := Some []\<rparr>)
      (JString (js ''10.0.0.1'')) Map.empty) =
       JsonCalculated (js ''AUDIT-1'') (fixture_calculations fixture_submission)
   \<and> status (update_handler fixture_env (fixture_update [])
       (database (calculate_handler fixture_env (fixture_submission\<lparr>calc_patientHash := Some []\<rparr>)
          (JString (js ''10.0.0.1'')) Map.empty))) = 401
   \<and> [0xFFFD, 0x41] \<noteq> ([0xD800, 0x41] :: jsstring)
   \<and> status (calculate_handler fixture_env
        (fixture_submission\<lparr>calc_patientHash := Some [0xD800, 0x41]\<rparr>)
        (JString (js ''10.0.0.1'')) Map.empty) = 200
   \<and> status (update_handler fixture_env (fixture_update [0xFFFD, 0x41])
       (database (calculate_handler fixture_env
          (fixture_submission\<lparr>calc_patientHash := Some [0xD800, 0x41]\<rparr>)
          (JString (js ''10.0.0.1'')) Map.empty))) = 200
   \<and> database (update_handler fixture_env (fixture_update [0xFFFD, 0x41])
       (database (calculate_handler fixture_env
          (fixture_submission\<lparr>calc_patientHash := Some [0xD800, 0x41]\<rparr>)
          (JString (js ''10.0.0.1'')) Map.empty))) (js ''AUDIT-1'') \<noteq>
     database (calculate_handler fixture_env
          (fixture_submission\<lparr>calc_patientHash := Some [0xD800, 0x41]\<rparr>)
          (JString (js ''10.0.0.1'')) Map.empty) (js ''AUDIT-1'')"
  by (simp add: calculate_handler_def update_handler_def fixture_defs store_defs Let_def
      lone_surrogate_collision)

section \<open>Properties of the audit record store\<close>

lemma store_update_changes_only_factors:
  "database (update_handler (store_collaborators calc imd gen pepper) u st) b =
     (case st b of
        None \<Rightarrow> None
      | Some r \<Rightarrow>
          Some (r\<lparr>rec_preventableFactors :=
            rec_preventableFactors
              (the (database (update_handler (store_collaborators calc imd gen pepper) u st) b))\<rparr>))"
  by (simp add: update_handler_def store_defs Let_def split: option.splits)

text \<open>
  C7. On the audit record store, an update request leaves every stored record as it was
  except for its preventableFactors field: no record is added or removed, and auditID,
  patientHash, calculation inputs and results, client IP and deprivation decile of every
  record are what they were. When the response is 200, the record of the request's
  auditID holds the submitted amendment fields as its preventableFactors and every other
  record is untouched.
\<close>

theorem update_frame:
  assumes "env = store_collaborators calc imd gen pepper"
    and "out = update_handler env u st"
  shows "(st b = None \<longrightarrow> database out b = None)
       \<and> (\<forall>r. st b = Some r \<longrightarrow>
             (\<exists>pf. database out b = Some (r\<lparr>rec_preventableFactors := pf\<rparr>)))
       \<and> map_option rec_auditID (database out b) = map_option rec_auditID (st b)
       \<and> map_option rec_patientHash (database out b) = map_option rec_patientHash (st b)
       \<and> (status out = 200 \<longrightarrow>
             (\<exists>r. st (upd_auditID u) = Some r \<and>
                  database out =
                    st(upd_auditID u \<mapsto> r\<lparr>rec_preventableFactors := Some (upd_fields u)\<rparr>)))"
proof -
  have frame: "database out b =
     (case st b of None \<Rightarrow> None
      | Some r \<Rightarrow> Some (r\<lparr>rec_preventableFactors := rec_preventableFactors (the (database out b))\<rparr>))"
    unfolding assms by (rule store_update_changes_only_factors)
  have 1: "st b = None \<longrightarrow> database out b = None"
    by (subst frame) simp
  have 2: "\<forall>r. st b = Some r \<longrightarrow> (\<exists>pf. database out b = Some (r\<lparr>rec_preventableFactors := pf\<rparr>))"
    using frame by (metis option.simps(5))
  have 3: "map_option rec_auditID (database out b) = map_option rec_auditID (st b)"
    by (subst frame) (simp split: option.splits)
  have 4: "map_option rec_patientHash (database out b) = map_option rec_patientHash (st b)"
    by (subst frame) (simp split: option.splits)
  have 5: "status out = 200 \<longrightarrow>
             (\<exists>r. st (upd_auditID u) = Some r \<and>
                  database out =
                    st(upd_auditID u \<mapsto> r\<lparr>rec_preventableFactors := Some (upd_fields u)\<rparr>))"
    unfolding assms
    by (auto simp add: update_handler_def store_defs Let_def split: option.splits if_splits)
  from 1 2 3 4 5 show ?thesis by blast
qed

theorem update_frame_witness:
  "database (update_handler fixture_env (fixture_update (js ''abc123''))
      [js ''AUDIT-1'' \<mapsto>
        \<lparr>rec_auditID = js ''AUDIT-1'',
         rec_patientHash = Some (rehashPatientHash (js ''pepper'') (js ''abc123'')),
         rec_calculationInputs = fixture_submission,
         rec_calculationResults = fixture_calculations fixture_submission,
         rec_preventableFactors = None, rec_clientIP = JNull, rec_imdDecile = JNumber 5\<rparr>])
     (js ''AUDIT-1'') =
   Some \<lparr>rec_auditID = js ''AUDIT-1'',
         rec_patientHash = Some (rehashPatientHash (js ''pepper'') (js ''abc123'')),
         rec_calculationInputs = fixture_submission,
         rec_calculationResults = fixture_calculations fixture_submission,
         rec_preventableFactors = Some [(js ''preventableFactors'', JString (js ''none''))],
         rec_clientIP = JNull, rec_imdDecile = JNumber 5\<rparr>"
  using update_frame [where env = fixture_env and u = "fixture_update (js ''abc123'')"
      and b = "js ''AUDIT-1''", OF fixture_env_def refl]
  by (simp add: update_handler_def fixture_env_def fixture_update_def store_defs)

end
